theory Spec2Isabelle
  imports Complex_Main
begin

section \<open>The store of \<open>backend.py\<close>\<close>

text \<open>
  \<open>AttendanceDatabase\<close> keeps everything in one SQLite file; every method opens a
  connection, runs its statements and closes. The store is modelled as a record of tables,
  one list of rows per table, in insertion (rowid) order. Columns declared \<open>NOT NULL\<close> (and
  the primary key of \<open>professors\<close>) hold a value, every other column holds \<open>None\<close> for SQL
  \<open>NULL\<close>. \<open>TEXT\<close>, \<open>DATE\<close>, \<open>TIME\<close> and \<open>TIMESTAMP\<close> columns hold text as the methods
  store it (dates come from \<open>strftime('%Y-%m-%d')\<close>), \<open>INTEGER\<close> and \<open>BOOLEAN\<close> columns hold
  integers. The two \<open>REAL\<close> columns of \<open>attendance_records\<close> are never written by any method
  and are carried as rationals.
  Foreign keys are declared in the schema but the connection never turns their enforcement
  on, so no method and no table constrains \<open>professor_id\<close> or \<open>session_id\<close> of a row.
\<close>

record professor =
  p_id :: string
  p_name :: string
  p_department :: string
  p_contact :: "string option"
  p_email :: "string option"
  p_date_registered :: string
  p_is_active :: "int option"
  p_password_hash :: "string option"
  p_role :: "string option"

record attendance_record =
  ar_id :: int
  ar_professor_id :: string
  ar_session_id :: "int option"
  ar_date :: string
  ar_time_in :: string
  ar_time_out :: "string option"
  ar_status :: "string option"
  ar_venue :: "string option"
  ar_remarks :: "string option"
  ar_session_type :: "string option"
  ar_latitude :: "rat option"
  ar_longitude :: "rat option"
  ar_device_id :: "string option"

record attendance_session =
  as_id :: int
  as_session_type :: string
  as_venue :: string
  as_remarks :: "string option"
  as_date :: string
  as_start_time :: string
  as_end_time :: "string option"
  as_created_by :: "string option"
  as_qr_code_data :: "string option"
  as_is_active :: "int option"
  as_created_at :: "string option"

record course =
  c_id :: int
  c_course_code :: string
  c_course_name :: string
  c_department :: "string option"
  c_units :: "int option"
  c_semester :: "string option"
  c_academic_year :: "string option"

record admin =
  a_id :: int
  a_username :: string
  a_password_hash :: string
  a_full_name :: string
  a_role :: "string option"
  a_permissions :: "string option"
  a_created_at :: "string option"

record system_log =
  l_id :: int
  l_timestamp :: "string option"
  l_user_id :: "string option"
  l_action :: string
  l_details :: "string option"
  l_ip_address :: "string option"
  l_device_info :: "string option"

text \<open>
  The tables with an \<open>AUTOINCREMENT\<close> key that the modelled methods insert into also have a
  row in \<open>sqlite_sequence\<close>: the largest rowid ever handed out.
\<close>

record database =
  professors :: "professor list"
  attendance_records :: "attendance_record list"
  attendance_sessions :: "attendance_session list"
  courses :: "course list"
  admins :: "admin list"
  system_logs :: "system_log list"
  seq_attendance_records :: int
  seq_courses :: int
  seq_system_logs :: int

definition empty_database :: database where
  "empty_database =
     \<lparr>professors = [], attendance_records = [], attendance_sessions = [], courses = [],
      admins = [], system_logs = [], seq_attendance_records = 0, seq_courses = 0,
      seq_system_logs = 0\<rparr>"

subsection \<open>Clock and formatting\<close>

text \<open>
  \<open>datetime.now()\<close> is an input of the model; so is SQLite's \<open>CURRENT_TIMESTAMP\<close>, the
  default of \<open>system_logs.timestamp\<close>. A method that reads the clock twice is given the same
  instant both times.
\<close>

record datetime =
  dt_year :: nat
  dt_month :: nat
  dt_day :: nat
  dt_hour :: nat
  dt_minute :: nat
  dt_second :: nat

record clock =
  clk_now :: datetime
  clk_current_timestamp :: string

definition digit_char :: "nat \<Rightarrow> char" where
  "digit_char n = ''0123456789'' ! (n mod 10)"

definition pad2 :: "nat \<Rightarrow> string" where
  "pad2 n = [digit_char (n div 10), digit_char n]"

definition pad4 :: "nat \<Rightarrow> string" where
  "pad4 n = [digit_char (n div 1000), digit_char (n div 100), digit_char (n div 10), digit_char n]"

text \<open>\<open>strftime('%Y-%m-%d')\<close>, for years of four digits.\<close>

definition strftime_ymd :: "datetime \<Rightarrow> string" where
  "strftime_ymd t = pad4 (dt_year t) @ ''-'' @ pad2 (dt_month t) @ ''-'' @ pad2 (dt_day t)"

text \<open>\<open>strftime('%Y%m%d_%H%M%S')\<close>.\<close>

definition strftime_stamp :: "datetime \<Rightarrow> string" where
  "strftime_stamp t =
     pad4 (dt_year t) @ pad2 (dt_month t) @ pad2 (dt_day t) @ ''_'' @
     pad2 (dt_hour t) @ pad2 (dt_minute t) @ pad2 (dt_second t)"

subsection \<open>Python and SQLite primitives\<close>

datatype error = KeyError string | IntegrityError string | ZeroDivisionError

text \<open>\<open>str(e)\<close> of a caught exception: a \<open>KeyError\<close> prints the \<open>repr\<close> of the key.\<close>

fun str_of_error :: "error \<Rightarrow> string" where
  "str_of_error (KeyError k) = [CHR 0x27] @ k @ [CHR 0x27]"
| "str_of_error (IntegrityError m) = m"
| "str_of_error ZeroDivisionError = ''division by zero''"

text \<open>\<open>d[k]\<close> on a dictionary: the key may be absent.\<close>

definition subscript :: "string \<Rightarrow> 'a option \<Rightarrow> error + 'a" where
  "subscript k v = (case v of None \<Rightarrow> Inl (KeyError k) | Some x \<Rightarrow> Inr x)"

text \<open>Sequencing inside a \<open>try\<close> block: an exception skips the rest.\<close>

definition bind_err :: "error + 'a \<Rightarrow> ('a \<Rightarrow> error + 'b) \<Rightarrow> error + 'b" where
  "bind_err m f = (case m of Inl e \<Rightarrow> Inl e | Inr x \<Rightarrow> f x)"

text \<open>\<open>d.get(k, default)\<close>.\<close>

definition get_default :: "'a option \<Rightarrow> 'a \<Rightarrow> 'a" where
  "get_default v dflt = (case v of None \<Rightarrow> dflt | Some x \<Rightarrow> x)"

text \<open>\<open>cursor.fetchone()\<close>: the first row of the result, or \<open>None\<close>.\<close>

definition fetchone :: "'a list \<Rightarrow> 'a option" where
  "fetchone rows = (case rows of [] \<Rightarrow> None | r # _ \<Rightarrow> Some r)"

text \<open>
  SQL \<open>column = ?\<close> on a nullable column: a comparison with \<open>NULL\<close> on either side is not
  true, so the row is not selected.
\<close>

definition sql_eq :: "'a option \<Rightarrow> 'a option \<Rightarrow> bool" where
  "sql_eq a b = (case (a, b) of (Some x, Some y) \<Rightarrow> x = y | _ \<Rightarrow> False)"

text \<open>The rowid an \<open>AUTOINCREMENT\<close> table gives its next row.\<close>

definition next_rowid :: "int \<Rightarrow> int list \<Rightarrow> int" where
  "next_rowid seq ids = max seq (fold max ids 0) + 1"

subsection \<open>\<open>log_action\<close>\<close>

text \<open>
  One row appended to \<open>system_logs\<close>; \<open>timestamp\<close> takes its default, \<open>ip_address\<close> and
  \<open>device_info\<close> stay \<open>NULL\<close>. No constraint of the table can reject the row.
\<close>

definition log_action :: "clock \<Rightarrow> string \<Rightarrow> string \<Rightarrow> string option \<Rightarrow> database \<Rightarrow> database" where
  "log_action clk action details user_id db =
     (let rid = next_rowid (seq_system_logs db) (map l_id (system_logs db))
      in db\<lparr>system_logs := system_logs db @
               [\<lparr>l_id = rid, l_timestamp = Some (clk_current_timestamp clk),
                 l_user_id = user_id, l_action = action, l_details = Some details,
                 l_ip_address = None, l_device_info = None\<rparr>],
             seq_system_logs := rid\<rparr>)"

subsection \<open>\<open>add_professor\<close>\<close>

record professor_data =
  pd_id :: "string option"
  pd_name :: "string option"
  pd_department :: "string option"
  pd_contact :: "string option"
  pd_email :: "string option"

text \<open>
  \<open>INSERT INTO professors\<close>: \<open>id\<close> is the primary key and \<open>email\<close> is \<open>UNIQUE\<close> (any number
  of \<open>NULL\<close> emails is allowed).
\<close>

definition insert_professor :: "professor \<Rightarrow> database \<Rightarrow> error + database" where
  "insert_professor row db =
     (if filter (\<lambda>p. p_id p = p_id row) (professors db) \<noteq> []
      then Inl (IntegrityError ''UNIQUE constraint failed: professors.id'')
      else if filter (\<lambda>p. sql_eq (p_email p) (p_email row)) (professors db) \<noteq> []
      then Inl (IntegrityError ''UNIQUE constraint failed: professors.email'')
      else Inr (db\<lparr>professors := professors db @ [row]\<rparr>))"

text \<open>The body of the \<open>try\<close> block: the first exception ends it.\<close>

definition add_professor_try ::
  "clock \<Rightarrow> professor_data \<Rightarrow> database \<Rightarrow> error + ((bool \<times> string) \<times> database)" where
  "add_professor_try clk d db =
     bind_err (subscript ''id'' (pd_id d)) (\<lambda>pid.
       let email = get_default (pd_email d) '''' in
       if fetchone (filter (\<lambda>p. p_id p = pid \<or> sql_eq (p_email p) (Some email))
                      (professors db)) \<noteq> None
       then Inr ((False, ''Professor ID or email already exists''), db)
       else
     bind_err (subscript ''name'' (pd_name d)) (\<lambda>name.
     bind_err (subscript ''department'' (pd_department d)) (\<lambda>dept.
     bind_err (insert_professor
                \<lparr>p_id = pid, p_name = name, p_department = dept,
                 p_contact = Some (get_default (pd_contact d) ''''),
                 p_email = Some email,
                 p_date_registered = strftime_ymd (clk_now clk),
                 p_is_active = Some 1, p_password_hash = None,
                 p_role = Some ''professor''\<rparr> db) (\<lambda>db1.
     Inr ((True, ''Professor added successfully''),
          log_action clk ''ADD_PROFESSOR'' (''Added professor '' @ pid) None db1)))))"

definition add_professor :: "clock \<Rightarrow> professor_data \<Rightarrow> database \<Rightarrow> (bool \<times> string) \<times> database" where
  "add_professor clk d db =
     (case add_professor_try clk d db of
        Inl e \<Rightarrow> ((False, ''Error adding professor: '' @ str_of_error e), db)
      | Inr r \<Rightarrow> r)"

subsection \<open>\<open>record_attendance\<close>\<close>

record attendance_data =
  ad_professor_id :: "string option"
  ad_session_id :: "int option"
  ad_date :: "string option"
  ad_time_in :: "string option"
  ad_status :: "string option"
  ad_venue :: "string option"
  ad_session_type :: "string option"
  ad_remarks :: "string option"

text \<open>
  \<open>INSERT INTO attendance_records\<close>: the table has no \<open>UNIQUE\<close> constraint, the row gets the
  next rowid; \<open>time_out\<close>, \<open>latitude\<close>, \<open>longitude\<close> and \<open>device_id\<close> are not in the column
  list and stay \<open>NULL\<close>.
\<close>

definition insert_attendance_record ::
  "string \<Rightarrow> int option \<Rightarrow> string \<Rightarrow> string \<Rightarrow> string \<Rightarrow> string \<Rightarrow> string \<Rightarrow> string \<Rightarrow>
   database \<Rightarrow> database" where
  "insert_attendance_record pid sid date time_in status venue session_type remarks db =
     (let rid = next_rowid (seq_attendance_records db) (map ar_id (attendance_records db))
      in db\<lparr>attendance_records := attendance_records db @
               [\<lparr>ar_id = rid, ar_professor_id = pid, ar_session_id = sid, ar_date = date,
                 ar_time_in = time_in, ar_time_out = None, ar_status = Some status,
                 ar_venue = Some venue, ar_remarks = Some remarks,
                 ar_session_type = Some session_type, ar_latitude = None,
                 ar_longitude = None, ar_device_id = None\<rparr>],
             seq_attendance_records := rid\<rparr>)"

text \<open>
  The existence check compares \<open>session_id = ?\<close> with the value of
  \<open>attendance_data.get('session_id')\<close>, which is \<open>None\<close> (bound as \<open>NULL\<close>) when the key is
  absent.
\<close>

definition record_attendance_try ::
  "clock \<Rightarrow> attendance_data \<Rightarrow> database \<Rightarrow> error + ((bool \<times> string) \<times> database)" where
  "record_attendance_try clk d db =
     bind_err (subscript ''professor_id'' (ad_professor_id d)) (\<lambda>pid.
     bind_err (subscript ''date'' (ad_date d)) (\<lambda>date.
       if fetchone (filter (\<lambda>r. ar_professor_id r = pid \<and>
                                sql_eq (ar_session_id r) (ad_session_id d) \<and>
                                ar_date r = date) (attendance_records db)) \<noteq> None
       then Inr ((False, ''Attendance already recorded for this session''), db)
       else
     bind_err (subscript ''time_in'' (ad_time_in d)) (\<lambda>time_in.
     Inr ((True, ''Attendance recorded successfully''),
          log_action clk ''RECORD_ATTENDANCE'' (''Professor '' @ pid @ '' attendance recorded'') None
            (insert_attendance_record pid (ad_session_id d) date time_in
               (get_default (ad_status d) ''Present'') (get_default (ad_venue d) '''')
               (get_default (ad_session_type d) '''') (get_default (ad_remarks d) '''') db)))))"

definition record_attendance ::
  "clock \<Rightarrow> attendance_data \<Rightarrow> database \<Rightarrow> (bool \<times> string) \<times> database" where
  "record_attendance clk d db =
     (case record_attendance_try clk d db of
        Inl e \<Rightarrow> ((False, ''Error recording attendance: '' @ str_of_error e), db)
      | Inr r \<Rightarrow> r)"

text \<open>The rows of \<open>attendance_records\<close> that carry a given (professor, session, date) key.\<close>

definition matching_records :: "string \<Rightarrow> int option \<Rightarrow> string \<Rightarrow> database \<Rightarrow> attendance_record list" where
  "matching_records pid sid date db =
     filter (\<lambda>r. ar_professor_id r = pid \<and> ar_session_id r = sid \<and> ar_date r = date)
       (attendance_records db)"

subsection \<open>Text comparison, ordering and grouping\<close>

text \<open>
  Dates and times are stored as text that does not look like a number, so SQLite compares
  them as text under the \<open>BINARY\<close> collation: byte by byte, a proper prefix first.
\<close>

fun text_less :: "string \<Rightarrow> string \<Rightarrow> bool" where
  "text_less [] [] = False"
| "text_less [] (y # ys) = True"
| "text_less (x # xs) [] = False"
| "text_less (x # xs) (y # ys) =
     (if x = y then text_less xs ys else (of_char x :: nat) < of_char y)"

definition text_le :: "string \<Rightarrow> string \<Rightarrow> bool" where
  "text_le a b = (a = b \<or> text_less a b)"

text \<open>\<open>x BETWEEN a AND b\<close> is \<open>x >= a AND x <= b\<close>.\<close>

definition between :: "string \<Rightarrow> string \<Rightarrow> string \<Rightarrow> bool" where
  "between x a b = (text_le a x \<and> text_le x b)"

text \<open>
  \<open>ORDER BY\<close>: a sort by the given comparison. SQL leaves the order of rows that compare
  equal open; the model keeps them in their order of arrival.
\<close>

fun insort_by :: "('a \<Rightarrow> 'a \<Rightarrow> bool) \<Rightarrow> 'a \<Rightarrow> 'a list \<Rightarrow> 'a list" where
  "insort_by le x [] = [x]"
| "insort_by le x (y # ys) = (if le x y then x # y # ys else y # insort_by le x ys)"

definition order_by :: "('a \<Rightarrow> 'a \<Rightarrow> bool) \<Rightarrow> 'a list \<Rightarrow> 'a list" where
  "order_by le xs = foldr (insort_by le) xs []"

text \<open>
  \<open>SELECT k, COUNT(*) ... GROUP BY k\<close> over the keys of the selected rows: one result row per
  distinct key, with the number of rows that carry it. A Python dictionary built from these
  rows has exactly these entries.
\<close>

definition group_count :: "'k list \<Rightarrow> ('k \<times> int) list" where
  "group_count ks = map (\<lambda>k. (k, int (length (filter (\<lambda>x. x = k) ks)))) (remdups ks)"

text \<open>\<open>COUNT(DISTINCT c)\<close> over the values of a column.\<close>

definition count_distinct :: "'a list \<Rightarrow> int" where
  "count_distinct vs = int (length (remdups vs))"

text \<open>Truth value of an optional string argument: \<open>None\<close> and \<open>''\<close> are false.\<close>

definition truthy :: "string option \<Rightarrow> bool" where
  "truthy v = (case v of None \<Rightarrow> False | Some s \<Rightarrow> s \<noteq> [])"

subsection \<open>\<open>get_attendance_records\<close>\<close>

record filters =
  f_date :: "string option"
  f_professor_id :: "string option"
  f_session_type :: "string option"
  f_department :: "string option"
  f_start_date :: "string option"
  f_end_date :: "string option"

text \<open>\<open>FROM attendance_records ar JOIN professors p ON ar.professor_id = p.id\<close>.\<close>

definition join_professors :: "database \<Rightarrow> (attendance_record \<times> professor) list" where
  "join_professors db =
     concat (map (\<lambda>r. map (\<lambda>p. (r, p)) (filter (\<lambda>p. ar_professor_id r = p_id p) (professors db)))
               (attendance_records db))"

text \<open>The conditions appended to the query, one per filter that is present and truthy.\<close>

definition filter_cond :: "filters \<Rightarrow> attendance_record \<times> professor \<Rightarrow> bool" where
  "filter_cond f = (\<lambda>(r, p).
     (truthy (f_date f) \<longrightarrow> Some (ar_date r) = f_date f) \<and>
     (truthy (f_professor_id f) \<longrightarrow> Some (ar_professor_id r) = f_professor_id f) \<and>
     (truthy (f_session_type f) \<longrightarrow> sql_eq (ar_session_type r) (f_session_type f)) \<and>
     (truthy (f_department f) \<longrightarrow> Some (p_department p) = f_department f) \<and>
     (truthy (f_start_date f) \<and> truthy (f_end_date f) \<longrightarrow>
        between (ar_date r) (get_default (f_start_date f) '''') (get_default (f_end_date f) '''')))"

text \<open>
  A result row is \<open>ar.*\<close> with \<open>p.name\<close> and \<open>p.department\<close>; rows come ordered by
  \<open>ar.date DESC, ar.time_in DESC\<close>.
\<close>

type_synonym attendance_row = "attendance_record \<times> string \<times> string"

definition date_time_desc :: "attendance_row \<Rightarrow> attendance_row \<Rightarrow> bool" where
  "date_time_desc x y =
     (text_less (ar_date (fst y)) (ar_date (fst x)) \<or>
      (ar_date (fst x) = ar_date (fst y) \<and> text_le (ar_time_in (fst y)) (ar_time_in (fst x))))"

definition get_attendance_records :: "filters option \<Rightarrow> database \<Rightarrow> attendance_row list" where
  "get_attendance_records fo db =
     order_by date_time_desc
       (map (\<lambda>(r, p). (r, p_name p, p_department p))
          (filter (case fo of None \<Rightarrow> (\<lambda>_. True) | Some f \<Rightarrow> filter_cond f) (join_professors db)))"

subsection \<open>\<open>get_attendance_summary\<close>\<close>

record summary =
  total_attendance :: int
  by_department :: "(string \<times> int) list"
  by_session_type :: "(string option \<times> int) list"
  top_professors :: "(string \<times> int) list"
  date_range :: string

text \<open>
  The fourth query groups the joined rows by \<open>ar.professor_id\<close> and reads \<open>p.name\<close> off a row
  of the group (the group's first row in the model), keeps the ten largest counts.
\<close>

definition top_attending :: "(attendance_record \<times> professor) list \<Rightarrow> (string \<times> int) list" where
  "top_attending rows =
     take 10 (order_by (\<lambda>x y. snd y \<le> snd x)
       (map (\<lambda>pid. let grp = filter (\<lambda>(r, p). ar_professor_id r = pid) rows
                    in (case grp of [] \<Rightarrow> [] | (r, p) # _ \<Rightarrow> p_name p, int (length grp)))
          (remdups (map (\<lambda>(r, p). ar_professor_id r) rows))))"

definition get_attendance_summary :: "string \<Rightarrow> string \<Rightarrow> database \<Rightarrow> summary" where
  "get_attendance_summary start_date end_date db =
     (let in_range = filter (\<lambda>r. between (ar_date r) start_date end_date) (attendance_records db);
          joined = filter (\<lambda>(r, p). between (ar_date r) start_date end_date) (join_professors db)
      in \<lparr>total_attendance = int (length in_range),
          by_department = group_count (map (\<lambda>(r, p). p_department p) joined),
          by_session_type = group_count (map ar_session_type in_range),
          top_professors = top_attending joined,
          date_range = start_date @ '' to '' @ end_date\<rparr>)"

subsection \<open>\<open>add_course\<close>\<close>

record course_data =
  cd_course_code :: "string option"
  cd_course_name :: "string option"
  cd_department :: "string option"
  cd_units :: "int option"
  cd_semester :: "string option"
  cd_academic_year :: "string option"

text \<open>\<open>INSERT INTO courses\<close>: \<open>course_code\<close> is \<open>UNIQUE\<close>, the row gets the next rowid.\<close>

definition insert_course ::
  "string \<Rightarrow> string \<Rightarrow> string \<Rightarrow> int \<Rightarrow> string \<Rightarrow> string \<Rightarrow> database \<Rightarrow> error + database" where
  "insert_course code name dept units semester year db =
     (if filter (\<lambda>c. c_course_code c = code) (courses db) \<noteq> []
      then Inl (IntegrityError ''UNIQUE constraint failed: courses.course_code'')
      else
        let rid = next_rowid (seq_courses db) (map c_id (courses db))
        in Inr (db\<lparr>courses := courses db @
                     [\<lparr>c_id = rid, c_course_code = code, c_course_name = name,
                       c_department = Some dept, c_units = Some units,
                       c_semester = Some semester, c_academic_year = Some year\<rparr>],
                   seq_courses := rid\<rparr>))"

definition add_course_try ::
  "course_data \<Rightarrow> database \<Rightarrow> error + ((bool \<times> string) \<times> database)" where
  "add_course_try d db =
     bind_err (subscript ''course_code'' (cd_course_code d)) (\<lambda>code.
     bind_err (subscript ''course_name'' (cd_course_name d)) (\<lambda>name.
     bind_err (insert_course code name (get_default (cd_department d) '''')
                 (get_default (cd_units d) 3) (get_default (cd_semester d) ''1st'')
                 (get_default (cd_academic_year d) ''2024-2025'') db) (\<lambda>db1.
     Inr ((True, ''Course added successfully''), db1))))"

definition add_course :: "course_data \<Rightarrow> database \<Rightarrow> (bool \<times> string) \<times> database" where
  "add_course d db =
     (case add_course_try d db of
        Inl e \<Rightarrow> ((False, ''Error adding course: '' @ str_of_error e), db)
      | Inr r \<Rightarrow> r)"

subsection \<open>\<open>authenticate_admin\<close>\<close>

text \<open>
  \<open>hashlib.sha256(password.encode()).hexdigest()\<close> is a function of the password alone; the
  model takes it as the parameter \<open>digest\<close>.
\<close>

definition authenticate_admin ::
  "(string \<Rightarrow> string) \<Rightarrow> clock \<Rightarrow> string \<Rightarrow> string \<Rightarrow> database \<Rightarrow> (bool \<times> admin option) \<times> database" where
  "authenticate_admin digest clk username password db =
     (let password_hash = digest password;
          found = fetchone (filter (\<lambda>a. a_username a = username \<and> a_password_hash a = password_hash)
                              (admins db))
      in case found of
           Some a \<Rightarrow> ((True, Some a),
                      log_action clk ''ADMIN_LOGIN'' (''Admin '' @ username @ '' logged in'') None db)
         | None \<Rightarrow> ((False, None), db))"

subsection \<open>\<open>get_daily_attendance_stats\<close>\<close>

text \<open>
  Python's \<open>/\<close> raises \<open>ZeroDivisionError\<close> on a zero divisor. The quotient is a binary
  floating-point number in the source; the model computes it exactly, as a rational.
\<close>

definition py_truediv :: "int \<Rightarrow> int \<Rightarrow> error + rat" where
  "py_truediv a b = (if b = 0 then Inl ZeroDivisionError else Inr (of_int a / of_int b))"

text \<open>\<open>(attended / total_professors * 100) if total_professors > 0 else 0\<close>.\<close>

definition attendance_rate_of :: "int \<Rightarrow> int \<Rightarrow> error + rat" where
  "attendance_rate_of attended total_professors =
     (if total_professors > 0
      then bind_err (py_truediv attended total_professors) (\<lambda>q. Inr (q * 100))
      else Inr 0)"

text \<open>\<open>SELECT COUNT(*) FROM professors WHERE is_active = 1\<close>.\<close>

definition count_active_professors :: "database \<Rightarrow> int" where
  "count_active_professors db = int (length (filter (\<lambda>p. p_is_active p = Some 1) (professors db)))"

text \<open>\<open>SELECT COUNT(DISTINCT professor_id) FROM attendance_records WHERE date = ?\<close>.\<close>

definition count_attended :: "string \<Rightarrow> database \<Rightarrow> int" where
  "count_attended date db =
     count_distinct (map ar_professor_id (filter (\<lambda>r. ar_date r = date) (attendance_records db)))"

text \<open>
  \<open>FROM professors p LEFT JOIN attendance_records ar ON p.id = ar.professor_id AND ar.date = ?\<close>:
  a professor without a matching record yields one row whose \<open>ar\<close> columns are \<open>NULL\<close>.
\<close>

definition left_join_records :: "string \<Rightarrow> database \<Rightarrow> (professor \<times> attendance_record option) list" where
  "left_join_records date db =
     concat (map (\<lambda>p.
        let ms = filter (\<lambda>r. p_id p = ar_professor_id r \<and> ar_date r = date) (attendance_records db)
        in if ms = [] then [(p, None)] else map (\<lambda>r. (p, Some r)) ms) (professors db))"

text \<open>
  \<open>SELECT p.department, COUNT(DISTINCT ar.professor_id) ... WHERE p.is_active = 1
  GROUP BY p.department\<close>: \<open>COUNT\<close> skips the \<open>NULL\<close>s of the unmatched rows.
\<close>

definition department_stats :: "string \<Rightarrow> database \<Rightarrow> (string \<times> int) list" where
  "department_stats date db =
     (let rows = filter (\<lambda>(p, ro). p_is_active p = Some 1) (left_join_records date db)
      in map (\<lambda>dept. (dept,
                count_distinct
                  (concat (map (\<lambda>(p, ro). case ro of None \<Rightarrow> [] | Some r \<Rightarrow> [ar_professor_id r])
                             (filter (\<lambda>(p, ro). p_department p = dept) rows)))))
           (remdups (map (\<lambda>(p, ro). p_department p) rows)))"

record daily_stats =
  ds_date :: string
  ds_total_professors :: int
  ds_attended_today :: int
  ds_attendance_rate :: rat
  ds_by_department :: "(string \<times> int) list"
  ds_absent_today :: int

definition get_daily_attendance_stats :: "clock \<Rightarrow> string option \<Rightarrow> database \<Rightarrow> error + daily_stats" where
  "get_daily_attendance_stats clk date_arg db =
     (let date = (if truthy date_arg then get_default date_arg '''' else strftime_ymd (clk_now clk));
          total_professors = count_active_professors db;
          attended_today = count_attended date db;
          dept_stats = department_stats date db
      in bind_err (attendance_rate_of attended_today total_professors) (\<lambda>rate.
         Inr \<lparr>ds_date = date, ds_total_professors = total_professors,
              ds_attended_today = attended_today, ds_attendance_rate = rate,
              ds_by_department = dept_stats,
              ds_absent_today = total_professors - attended_today\<rparr>))"

subsection \<open>SQLite's \<open>date(?, '-7 days')\<close>\<close>

text \<open>
  The argument is always the text that \<open>strftime('%Y-%m-%d')\<close> produced. SQLite reads the
  year, the month (1 to 12) and the day (1 to 31) off it, steps seven days back in the
  Gregorian calendar and prints the date in the same format; on text it cannot read it
  returns \<open>NULL\<close>.
\<close>

definition digit_val :: "char \<Rightarrow> int option" where
  "digit_val c = map_of (zip ''0123456789'' [0, 1, 2, 3, 4, 5, 6, 7, 8, 9]) c"

definition number_of_digits :: "char list \<Rightarrow> int option" where
  "number_of_digits cs =
     fold (\<lambda>c acc. case (acc, digit_val c) of (Some a, Some v) \<Rightarrow> Some (10 * a + v) | _ \<Rightarrow> None)
       cs (Some 0)"

definition parse_ymd :: "string \<Rightarrow> (int \<times> int \<times> int) option" where
  "parse_ymd s =
     (if length s = 10 \<and> s ! 4 = CHR ''-'' \<and> s ! 7 = CHR ''-''
      then (case (number_of_digits (take 4 s), number_of_digits (take 2 (drop 5 s)),
                  number_of_digits (take 2 (drop 8 s))) of
              (Some y, Some m, Some d) \<Rightarrow>
                if 1 \<le> m \<and> m \<le> 12 \<and> 1 \<le> d \<and> d \<le> 31 then Some (y, m, d) else None
            | _ \<Rightarrow> None)
      else None)"

definition is_leap_year :: "int \<Rightarrow> bool" where
  "is_leap_year y = (y mod 4 = 0 \<and> (y mod 100 \<noteq> 0 \<or> y mod 400 = 0))"

definition days_in_month :: "int \<Rightarrow> int \<Rightarrow> int" where
  "days_in_month y m =
     (if m = 2 then (if is_leap_year y then 29 else 28)
      else if m = 4 \<or> m = 6 \<or> m = 9 \<or> m = 11 then 30 else 31)"

definition seven_days_before :: "int \<Rightarrow> int \<Rightarrow> int \<Rightarrow> int \<times> int \<times> int" where
  "seven_days_before y m d =
     (if 7 < d then (y, m, d - 7)
      else if 1 < m then (y, m - 1, d - 7 + days_in_month y (m - 1))
      else (y - 1, 12, d - 7 + 31))"

definition sqlite_date_minus_7_days :: "string \<Rightarrow> string option" where
  "sqlite_date_minus_7_days s =
     (case parse_ymd s of
        None \<Rightarrow> None
      | Some (y, m, d) \<Rightarrow>
          (case seven_days_before y m d of
             (y', m', d') \<Rightarrow> Some (pad4 (nat y') @ ''-'' @ pad2 (nat m') @ ''-'' @ pad2 (nat d'))))"

subsection \<open>\<open>get_dashboard_stats\<close>\<close>

record dashboard_stats =
  dash_total_professors :: int
  dash_today_attendance :: int
  dash_month_attendance :: int
  dash_active_sessions :: int
  dash_attendance_rate :: rat
  dash_recent_attendance :: "(string \<times> int) list"

text \<open>
  The last query: \<open>SELECT date, COUNT(*) FROM attendance_records
  WHERE date >= date(?, '-7 days') GROUP BY date ORDER BY date DESC\<close>, bound to today's date.
  A comparison with \<open>NULL\<close> selects nothing.
\<close>

definition recent_attendance_query :: "string \<Rightarrow> database \<Rightarrow> (string \<times> int) list" where
  "recent_attendance_query today db =
     (case sqlite_date_minus_7_days today of
        None \<Rightarrow> []
      | Some cutoff \<Rightarrow>
          order_by (\<lambda>x y. text_le (fst y) (fst x))
            (group_count (map ar_date (filter (\<lambda>r. text_le cutoff (ar_date r))
                                         (attendance_records db)))))"

definition get_dashboard_stats :: "clock \<Rightarrow> database \<Rightarrow> error + dashboard_stats" where
  "get_dashboard_stats clk db =
     (let total_professors = count_active_professors db;
          today = strftime_ymd (clk_now clk);
          today_attendance = count_attended today db;
          month_start = strftime_ymd ((clk_now clk)\<lparr>dt_day := 1\<rparr>);
          month_attendance =
            int (length (filter (\<lambda>r. between (ar_date r) month_start today) (attendance_records db)));
          active_sessions =
            int (length (filter (\<lambda>s. as_date s = today \<and> as_is_active s = Some 1)
                           (attendance_sessions db)));
          recent_attendance = recent_attendance_query today db
      in bind_err (attendance_rate_of today_attendance total_professors) (\<lambda>rate.
         Inr \<lparr>dash_total_professors = total_professors,
              dash_today_attendance = today_attendance,
              dash_month_attendance = month_attendance,
              dash_active_sessions = active_sessions,
              dash_attendance_rate = rate,
              dash_recent_attendance = recent_attendance\<rparr>))"

subsection \<open>\<open>export_to_excel\<close>\<close>

text \<open>
  The method also writes to the file system, which becomes part of the state: a map from
  paths to the workbooks written there. A workbook is the sheet's name and its rows, one per
  record; the column widths set on the sheet are left out.
\<close>

record workbook =
  wb_sheet_name :: string
  wb_rows :: "attendance_row list"

record world =
  w_db :: database
  w_files :: "string \<rightharpoonup> workbook"

definition export_to_excel :: "clock \<Rightarrow> filters option \<Rightarrow> string option \<Rightarrow> world \<Rightarrow> string \<times> world" where
  "export_to_excel clk fo output_path_arg w =
     (let output_path =
            (if truthy output_path_arg then get_default output_path_arg ''''
             else ''attendance_report_'' @ strftime_stamp (clk_now clk) @ ''.xlsx'');
          records = get_attendance_records fo (w_db w)
      in if records = [] then ('''', w)
         else (output_path,
               w\<lparr>w_files := (w_files w)(output_path \<mapsto>
                     \<lparr>wb_sheet_name = ''Attendance Records'', wb_rows = records\<rparr>),
                 w_db := log_action clk ''EXPORT_EXCEL'' (''Exported to '' @ output_path) None
                           (w_db w)\<rparr>))"

subsection \<open>Example data\<close>

text \<open>
  A small store used to run the methods: two professors in two departments, the second
  registered without an email, and three check-ins.
\<close>

definition example_clock :: clock where
  "example_clock =
     \<lparr>clk_now = \<lparr>dt_year = 2024, dt_month = 1, dt_day = 10, dt_hour = 9, dt_minute = 30,
                 dt_second = 0\<rparr>,
      clk_current_timestamp = ''2024-01-10 01:30:00''\<rparr>"

definition example_professor :: "string \<Rightarrow> string \<Rightarrow> string \<Rightarrow> string \<Rightarrow> professor" where
  "example_professor pid name dept email =
     \<lparr>p_id = pid, p_name = name, p_department = dept, p_contact = Some '''',
      p_email = Some email, p_date_registered = ''2023-09-01'', p_is_active = Some 1,
      p_password_hash = None, p_role = Some ''professor''\<rparr>"

definition example_record :: "int \<Rightarrow> string \<Rightarrow> int option \<Rightarrow> string \<Rightarrow> attendance_record" where
  "example_record rid pid sid date =
     \<lparr>ar_id = rid, ar_professor_id = pid, ar_session_id = sid, ar_date = date,
      ar_time_in = ''08:00:00'', ar_time_out = None, ar_status = Some ''Present'',
      ar_venue = Some '''', ar_remarks = Some '''', ar_session_type = Some '''',
      ar_latitude = None, ar_longitude = None, ar_device_id = None\<rparr>"

definition example_db :: database where
  "example_db =
     empty_database
       \<lparr>professors := [example_professor ''P1'' ''Ada'' ''A'' ''ada@u.edu'',
                       example_professor ''P2'' ''Bob'' ''B'' ''''],
        attendance_records := [example_record 1 ''P1'' (Some 1) ''2024-01-01'',
                               example_record 2 ''P1'' (Some 2) ''2024-01-02'',
                               example_record 3 ''P2'' (Some 1) ''2024-01-01''],
        seq_attendance_records := 3\<rparr>"

definition example_professor_data :: "string \<Rightarrow> string option \<Rightarrow> professor_data" where
  "example_professor_data pid email =
     \<lparr>pd_id = Some pid, pd_name = Some ''Cy'', pd_department = Some ''A'', pd_contact = None,
      pd_email = email\<rparr>"

text \<open>A check-in on 2024-01-02 by P7, an id that no professor of the example store has.\<close>

definition unregistered_check_in :: attendance_data where
  "unregistered_check_in =
     \<lparr>ad_professor_id = Some ''P7'', ad_session_id = None, ad_date = Some ''2024-01-02'',
      ad_time_in = Some ''08:00:00'', ad_status = None, ad_venue = None,
      ad_session_type = None, ad_remarks = None\<rparr>"

text \<open>
  The example store with two more check-ins of P1: one on 2024-01-05 and one dated
  2024-01-20, ten days after the day of the example clock.
\<close>

definition future_db :: database where
  "future_db =
     example_db\<lparr>attendance_records := attendance_records example_db @
                   [example_record 4 ''P1'' None ''2024-01-05'',
                    example_record 5 ''P1'' None ''2024-01-20'']\<rparr>"

text \<open>
  A store with one active professor, one deactivated professor, and check-ins on 2024-01-10
  by both and by an id that no professor has.
\<close>

definition crowded_db :: database where
  "crowded_db =
     empty_database
       \<lparr>professors := [example_professor ''P1'' ''Ada'' ''A'' ''ada@u.edu'',
                       (example_professor ''P2'' ''Bob'' ''B'' '''')\<lparr>p_is_active := Some 0\<rparr>],
        attendance_records := [example_record 1 ''P1'' None ''2024-01-10'',
                               example_record 2 ''P2'' None ''2024-01-10'',
                               example_record 3 ''P7'' None ''2024-01-10'']\<rparr>"

text \<open>
  An administrator whose stored hash is the digest of the password "secret", for a stand-in
  digest that reverses its argument; a course given without units, semester and year; the
  example store with an empty file system; a filter on one professor id.
\<close>

definition example_admin :: admin where
  "example_admin =
     \<lparr>a_id = 1, a_username = ''root'', a_password_hash = rev ''secret'', a_full_name = ''Root'',
      a_role = Some ''admin'', a_permissions = None, a_created_at = Some ''2023-09-01 00:00:00''\<rparr>"

definition example_course_data :: "string \<Rightarrow> course_data" where
  "example_course_data code =
     \<lparr>cd_course_code = Some code, cd_course_name = Some ''Logic'', cd_department = None,
      cd_units = None, cd_semester = None, cd_academic_year = None\<rparr>"

definition example_world :: world where
  "example_world = \<lparr>w_db = example_db, w_files = Map.empty\<rparr>"

definition example_filters :: "string \<Rightarrow> filters" where
  "example_filters pid =
     \<lparr>f_date = None, f_professor_id = Some pid, f_session_type = None, f_department = None,
      f_start_date = None, f_end_date = None\<rparr>"

section \<open>Properties\<close>

subsection \<open>Auxiliary facts\<close>

lemma fetchone_None_iff: "fetchone rows = None \<longleftrightarrow> rows = []"
  by (simp add: fetchone_def split: list.splits)

lemma fetchone_filter_None_iff: "fetchone (filter P xs) = None \<longleftrightarrow> (\<forall>x\<in>set xs. \<not> P x)"
  by (simp add: fetchone_None_iff filter_empty_conv)

lemma sql_eq_Some_iff: "sql_eq a (Some y) \<longleftrightarrow> a = Some y"
  by (cases a) (simp_all add: sql_eq_def)

lemma sql_eq_None: "sql_eq a None = False"
  by (cases a) (simp_all add: sql_eq_def)

lemmas example_defs =
  example_db_def example_professor_def example_record_def example_clock_def
  example_professor_data_def empty_database_def

subsection \<open>Recording attendance\<close>

text \<open>
  With a session id, the existence check of \<open>record_attendance\<close> works: when a row with the
  same professor, session and date is stored, the call fails and the store is unchanged.
\<close>

lemma record_attendance_duplicate_session:
  assumes "ad_professor_id d = Some pid" and "ad_date d = Some date"
    and "ad_session_id d = Some sid"
    and "matching_records pid (Some sid) date db \<noteq> []"
  shows "record_attendance clk d db =
           ((False, ''Attendance already recorded for this session''), db)"
  using assms
  by (auto simp: record_attendance_def record_attendance_try_def bind_err_def subscript_def
      fetchone_None_iff sql_eq_Some_iff matching_records_def filter_empty_conv)

text \<open>
  C1. The claim: whenever a row with the same (professor_id, session_id, date) is stored,
  also when the session id is absent, \<open>record_attendance\<close> fails and inserts nothing, so two
  calls with the same key leave exactly one matching row.
  Without a session id the code does otherwise: \<open>session_id = NULL\<close> selects no row, the
  check finds nothing and the second call inserts again. Run on the empty store, both calls
  succeed and two rows with the key (P1, no session, 2024-01-10) are stored.
\<close>

theorem record_attendance_null_session_twice:
  "let d = \<lparr>ad_professor_id = Some ''P1'', ad_session_id = None, ad_date = Some ''2024-01-10'',
             ad_time_in = Some ''08:00:00'', ad_status = None, ad_venue = None,
             ad_session_type = None, ad_remarks = None\<rparr>;
       first_call = record_attendance clk d empty_database;
       second_call = record_attendance clk d (snd first_call)
   in fst first_call = (True, ''Attendance recorded successfully'') \<and>
      fst second_call = (True, ''Attendance recorded successfully'') \<and>
      length (matching_records ''P1'' None ''2024-01-10'' (snd second_call)) = 2"
  by (simp add: record_attendance_def record_attendance_try_def bind_err_def subscript_def
      fetchone_None_iff sql_eq_None insert_attendance_record_def log_action_def
      empty_database_def matching_records_def Let_def)

subsection \<open>Registering professors\<close>

text \<open>
  C5. When a stored professor has the id of the data or its email (an absent email counts
  as the empty string), \<open>add_professor\<close> returns the failure "Professor ID or email already
  exists" and the store, every professor row included, is unchanged. Otherwise the professor
  is appended with \<open>date_registered\<close> set to the current date, the action is logged and the
  call returns success. The data carries the mandatory keys \<open>id\<close>, \<open>name\<close> and \<open>department\<close>.
\<close>

theorem add_professor_duplicate_or_insert:
  assumes "pd_id d = Some pid"
  shows "((\<exists>p\<in>set (professors db).
             p_id p = pid \<or> p_email p = Some (get_default (pd_email d) '''')) \<longrightarrow>
           add_professor clk d db = ((False, ''Professor ID or email already exists''), db)) \<and>
         (\<not> (\<exists>p\<in>set (professors db).
               p_id p = pid \<or> p_email p = Some (get_default (pd_email d) '''')) \<longrightarrow>
           pd_name d = Some name \<longrightarrow> pd_department d = Some dept \<longrightarrow>
           add_professor clk d db =
             ((True, ''Professor added successfully''),
              log_action clk ''ADD_PROFESSOR'' (''Added professor '' @ pid) None
                (db\<lparr>professors := professors db @
                   [\<lparr>p_id = pid, p_name = name, p_department = dept,
                     p_contact = Some (get_default (pd_contact d) ''''),
                     p_email = Some (get_default (pd_email d) ''''),
                     p_date_registered = strftime_ymd (clk_now clk),
                     p_is_active = Some 1, p_password_hash = None,
                     p_role = Some ''professor''\<rparr>]\<rparr>)))"
  using assms
  by (auto simp: add_professor_def add_professor_try_def bind_err_def subscript_def Let_def
      fetchone_filter_None_iff sql_eq_Some_iff insert_professor_def filter_empty_conv)

text \<open>
  On the example store: the id P1 is taken, so is the email of P1 under a fresh id; P3 with
  a fresh email is registered on 2024-01-10.
\<close>

theorem add_professor_duplicate_or_insert_witness:
  "add_professor example_clock (example_professor_data ''P1'' (Some ''new@u.edu'')) example_db =
     ((False, ''Professor ID or email already exists''), example_db) \<and>
   add_professor example_clock (example_professor_data ''P3'' (Some ''ada@u.edu'')) example_db =
     ((False, ''Professor ID or email already exists''), example_db) \<and>
   fst (add_professor example_clock (example_professor_data ''P3'' (Some ''cy@u.edu'')) example_db) =
     (True, ''Professor added successfully'') \<and>
   map (\<lambda>p. (p_id p, p_date_registered p))
     (professors (snd (add_professor example_clock
                        (example_professor_data ''P3'' (Some ''cy@u.edu'')) example_db))) =
     [(''P1'', ''2023-09-01''), (''P2'', ''2023-09-01''), (''P3'', ''2024-01-10'')]"
proof -
  have taken_id: "\<exists>p\<in>set (professors example_db). p_id p = ''P1'' \<or>
      p_email p = Some (get_default (pd_email (example_professor_data ''P1'' (Some ''new@u.edu''))) '''')"
    by (simp add: example_defs)
  have taken_email: "\<exists>p\<in>set (professors example_db). p_id p = ''P3'' \<or>
      p_email p = Some (get_default (pd_email (example_professor_data ''P3'' (Some ''ada@u.edu''))) '''')"
    by (simp add: example_defs get_default_def)
  have fresh: "\<not> (\<exists>p\<in>set (professors example_db). p_id p = ''P3'' \<or>
      p_email p = Some (get_default (pd_email (example_professor_data ''P3'' (Some ''cy@u.edu''))) ''''))"
    by (simp add: example_defs get_default_def)
  have r1: "add_professor example_clock (example_professor_data ''P1'' (Some ''new@u.edu'')) example_db =
     ((False, ''Professor ID or email already exists''), example_db)"
    using taken_id
      add_professor_duplicate_or_insert
        [where d = "example_professor_data ''P1'' (Some ''new@u.edu'')" and pid = "''P1''"
           and db = example_db and clk = example_clock]
    by (simp add: example_professor_data_def)
  have r2: "add_professor example_clock (example_professor_data ''P3'' (Some ''ada@u.edu'')) example_db =
     ((False, ''Professor ID or email already exists''), example_db)"
    using taken_email
      add_professor_duplicate_or_insert
        [where d = "example_professor_data ''P3'' (Some ''ada@u.edu'')" and pid = "''P3''"
           and db = example_db and clk = example_clock]
    by (simp add: example_professor_data_def)
  have r3: "add_professor example_clock (example_professor_data ''P3'' (Some ''cy@u.edu'')) example_db =
             ((True, ''Professor added successfully''),
              log_action example_clock ''ADD_PROFESSOR'' (''Added professor '' @ ''P3'') None
                (example_db\<lparr>professors := professors example_db @
                   [\<lparr>p_id = ''P3'', p_name = ''Cy'', p_department = ''A'',
                     p_contact = Some (get_default (pd_contact (example_professor_data ''P3'' (Some ''cy@u.edu''))) ''''),
                     p_email = Some (get_default (pd_email (example_professor_data ''P3'' (Some ''cy@u.edu''))) ''''),
                     p_date_registered = strftime_ymd (clk_now example_clock),
                     p_is_active = Some 1, p_password_hash = None,
                     p_role = Some ''professor''\<rparr>]\<rparr>))"
    using fresh
      add_professor_duplicate_or_insert
        [where d = "example_professor_data ''P3'' (Some ''cy@u.edu'')" and pid = "''P3''"
           and db = example_db and clk = example_clock and name = "''Cy''" and dept = "''A''"]
    by (simp add: example_professor_data_def)
  have today: "strftime_ymd (clk_now example_clock) = ''2024-01-10''"
    by (simp add: example_clock_def strftime_ymd_def pad4_def pad2_def digit_char_def)
  show ?thesis
    unfolding r1 r2 r3 today
    by (simp add: log_action_def example_db_def example_professor_def empty_database_def Let_def)
qed

text \<open>
  C9. When a stored professor has the empty string as email, \<open>add_professor\<close> with data that
  has no \<open>email\<close> key returns the duplicate failure and inserts nothing, whatever the id: the
  absent email is looked up as the empty string. It is also stored as the empty string when
  the call succeeds.
\<close>

theorem add_professor_absent_email:
  assumes "pd_id d = Some pid" and "pd_email d = None"
  shows "((\<exists>p\<in>set (professors db). p_email p = Some '''') \<longrightarrow>
           add_professor clk d db = ((False, ''Professor ID or email already exists''), db)) \<and>
         (fst (fst (add_professor clk d db)) \<longrightarrow>
           (\<exists>row. professors (snd (add_professor clk d db)) = professors db @ [row] \<and>
                  p_id row = pid \<and> p_email row = Some ''''))"
  using assms
  by (auto simp: add_professor_def add_professor_try_def bind_err_def subscript_def Let_def
      fetchone_filter_None_iff sql_eq_Some_iff insert_professor_def filter_empty_conv
      get_default_def log_action_def split: option.splits)

text \<open>
  On the example store P2 was registered without an email, so P9 without an email is
  refused; on the empty store P9 is registered with the empty email.
\<close>

theorem add_professor_absent_email_witness:
  "add_professor example_clock (example_professor_data ''P9'' None) example_db =
     ((False, ''Professor ID or email already exists''), example_db) \<and>
   fst (add_professor example_clock (example_professor_data ''P9'' None) empty_database) =
     (True, ''Professor added successfully'') \<and>
   map (\<lambda>p. (p_id p, p_email p))
     (professors (snd (add_professor example_clock (example_professor_data ''P9'' None)
                        empty_database))) = [(''P9'', Some '''')]"
proof -
  have no_email: "pd_id (example_professor_data ''P9'' None) = Some ''P9''"
    "pd_email (example_professor_data ''P9'' None) = None"
    by (simp_all add: example_professor_data_def)
  have stored: "\<exists>p\<in>set (professors example_db). p_email p = Some ''''"
    by (simp add: example_defs)
  have ok: "fst (add_professor example_clock (example_professor_data ''P9'' None) empty_database) =
     (True, ''Professor added successfully'')"
    by (simp add: add_professor_def add_professor_try_def bind_err_def subscript_def
        fetchone_None_iff insert_professor_def example_professor_data_def empty_database_def)
  from add_professor_absent_email [OF no_email, of example_db example_clock] stored
  have r1: "add_professor example_clock (example_professor_data ''P9'' None) example_db =
     ((False, ''Professor ID or email already exists''), example_db)"
    by blast
  from add_professor_absent_email [OF no_email, of empty_database example_clock] ok
  obtain row where "professors (snd (add_professor example_clock (example_professor_data ''P9'' None)
                        empty_database)) = professors empty_database @ [row]"
      "p_id row = ''P9''" "p_email row = Some ''''"
    by auto
  then show ?thesis
    using r1 ok by (simp add: empty_database_def)
qed

subsection \<open>The attendance summary\<close>

text \<open>The counts of a \<open>GROUP BY\<close> add up to the number of grouped rows.\<close>

lemma group_count_sum: "sum_list (map snd (group_count ks)) = int (length ks)"
proof -
  have "sum_list (map snd (group_count ks)) =
        (\<Sum>k\<leftarrow>remdups ks. int (count_list ks k))"
    by (simp add: group_count_def comp_def count_list_eq_length_filter eq_commute)
  also have "\<dots> = (\<Sum>k\<in>set ks. int (count_list ks k))"
    by (simp add: sum_list_distinct_conv_sum_set)
  also have "\<dots> = int (\<Sum>k\<in>set ks. count_list ks k)"
    by simp
  also have "\<dots> = int (length ks)"
    by (simp add: sum_count_set)
  finally show ?thesis .
qed

lemma primary_key_matches:
  assumes "distinct (map p_id ps)"
  shows "length (filter (\<lambda>p. x = p_id p) ps) = (if x \<in> p_id ` set ps then 1 else 0)"
  using assms by (induction ps) auto

lemma join_select_length:
  assumes "distinct (map p_id ps)"
  shows "length (filter (\<lambda>(r, p). P r)
           (concat (map (\<lambda>r. map (\<lambda>p. (r, p)) (filter (\<lambda>p. ar_professor_id r = p_id p) ps)) rs))) =
         length (filter (\<lambda>r. P r \<and> ar_professor_id r \<in> p_id ` set ps) rs)"
proof (induction rs)
  case Nil
  show ?case by simp
next
  case (Cons r rs)
  have "filter (\<lambda>(r, p). P r) (map (\<lambda>p. (r, p)) (filter (\<lambda>p. ar_professor_id r = p_id p) ps)) =
        (if P r then map (\<lambda>p. (r, p)) (filter (\<lambda>p. ar_professor_id r = p_id p) ps) else [])"
    by (simp add: filter_map comp_def)
  with Cons primary_key_matches [OF assms, of "ar_professor_id r"] show ?case
    by (auto simp: filter_empty_conv)
qed

lemma in_range_example:
  "between ''2024-01-01'' ''2024-01-01'' ''2024-01-02''"
  "between ''2024-01-02'' ''2024-01-01'' ''2024-01-02''"
  by (simp_all add: between_def text_le_def)

text \<open>
  With professor ids unique (the primary key of \<open>professors\<close>), the counts of
  \<open>by_department\<close> add up to the number of records in the range whose \<open>professor_id\<close> is the
  id of a stored professor. That is never more than \<open>total_attendance\<close>, and it is
  \<open>total_attendance\<close> on every store where the records in the range respect the declared
  reference from \<open>attendance_records.professor_id\<close> to \<open>professors.id\<close>.
\<close>

lemma summary_by_department_sum:
  assumes "distinct (map p_id (professors db))"
  shows "sum_list (map snd (by_department (get_attendance_summary a b db))) =
           int (length (filter (\<lambda>r. between (ar_date r) a b \<and>
                                     ar_professor_id r \<in> p_id ` set (professors db))
                          (attendance_records db))) \<and>
         sum_list (map snd (by_department (get_attendance_summary a b db))) \<le>
           total_attendance (get_attendance_summary a b db) \<and>
         ((\<forall>r\<in>set (attendance_records db).
             between (ar_date r) a b \<longrightarrow> ar_professor_id r \<in> p_id ` set (professors db)) \<longrightarrow>
          sum_list (map snd (by_department (get_attendance_summary a b db))) =
            total_attendance (get_attendance_summary a b db))"
proof -
  let ?inr = "\<lambda>r. between (ar_date r) a b"
  let ?reg = "\<lambda>r. ?inr r \<and> ar_professor_id r \<in> p_id ` set (professors db)"
  have s: "sum_list (map snd (by_department (get_attendance_summary a b db))) =
        int (length (filter ?reg (attendance_records db)))"
    using join_select_length [OF assms, of ?inr "attendance_records db"]
    by (simp add: get_attendance_summary_def Let_def group_count_sum join_professors_def)
  have t: "total_attendance (get_attendance_summary a b db) =
        int (length (filter ?inr (attendance_records db)))"
    by (simp add: get_attendance_summary_def Let_def)
  have "filter ?reg (attendance_records db) =
        filter (\<lambda>r. ar_professor_id r \<in> p_id ` set (professors db)) (filter ?inr (attendance_records db))"
    by (simp add: conj_commute)
  then have le: "length (filter ?reg (attendance_records db)) \<le> length (filter ?inr (attendance_records db))"
    by (metis length_filter_le)
  have eq: "filter ?reg (attendance_records db) = filter ?inr (attendance_records db)"
    if "\<forall>r\<in>set (attendance_records db). ?inr r \<longrightarrow> ar_professor_id r \<in> p_id ` set (professors db)"
    using that by (intro filter_cong) auto
  show ?thesis
    using s t le eq by auto
qed

text \<open>
  The example of the specification: P1 in department A with two check-ins, P2 in department
  B with one, summary from 2024-01-01 to 2024-01-02.
\<close>

lemma summary_specification_example:
  "by_department (get_attendance_summary ''2024-01-01'' ''2024-01-02'' example_db) =
     [(''A'', 2), (''B'', 1)] \<and>
   total_attendance (get_attendance_summary ''2024-01-01'' ''2024-01-02'' example_db) = 3 \<and>
   sum_list (map snd (by_department (get_attendance_summary ''2024-01-01'' ''2024-01-02'' example_db))) =
     total_attendance (get_attendance_summary ''2024-01-01'' ''2024-01-02'' example_db)"
proof -
  have pk: "distinct (map p_id (professors example_db))"
    by (simp add: example_defs)
  have reg: "\<forall>r\<in>set (attendance_records example_db).
      between (ar_date r) ''2024-01-01'' ''2024-01-02'' \<longrightarrow>
      ar_professor_id r \<in> p_id ` set (professors example_db)"
    by (simp add: example_defs)
  have vals: "by_department (get_attendance_summary ''2024-01-01'' ''2024-01-02'' example_db) =
     [(''A'', 2), (''B'', 1)]"
     "total_attendance (get_attendance_summary ''2024-01-01'' ''2024-01-02'' example_db) = 3"
    by (simp_all add: get_attendance_summary_def Let_def example_defs join_professors_def
      group_count_def in_range_example)
  from summary_by_department_sum [OF pk, of "''2024-01-01''" "''2024-01-02''"] reg
  have "sum_list (map snd (by_department (get_attendance_summary ''2024-01-01'' ''2024-01-02'' example_db))) =
     total_attendance (get_attendance_summary ''2024-01-01'' ''2024-01-02'' example_db)"
    by blast
  with vals show ?thesis by simp
qed

text \<open>
  C2. The claim: for every store and date range the counts of \<open>by_department\<close> add up to
  \<open>total_attendance\<close>.
  The schema declares \<open>professor_id\<close> a reference to \<open>professors\<close>, but nothing enforces it:
  \<open>record_attendance\<close> stores a check-in of an id that no professor has. The total counts
  that record, the department counts come from the join with \<open>professors\<close> and skip it. After
  the check-in of P7 on the example store the departments still add up to 3, the total is 4.
\<close>

theorem summary_unregistered_check_in:
  "let recorded = record_attendance clk unregistered_check_in example_db;
       s = get_attendance_summary ''2024-01-01'' ''2024-01-02'' (snd recorded)
   in fst recorded = (True, ''Attendance recorded successfully'') \<and>
      by_department s = [(''A'', 2), (''B'', 1)] \<and>
      sum_list (map snd (by_department s)) = 3 \<and>
      total_attendance s = 4"
  by (simp add: record_attendance_def record_attendance_try_def bind_err_def subscript_def
      fetchone_None_iff sql_eq_None insert_attendance_record_def log_action_def next_rowid_def
      get_default_def unregistered_check_in_def get_attendance_summary_def Let_def example_defs
      join_professors_def group_count_def in_range_example)

subsection \<open>Daily and dashboard statistics\<close>

text \<open>The guarded rate never raises: it is the quotient in percent, or 0 without active professors.\<close>

lemma attendance_rate_of_zero: "attendance_rate_of attended 0 = Inr 0"
  by (simp add: attendance_rate_of_def)

lemma attendance_rate_of_total:
  "attendance_rate_of attended n =
     Inr (if 0 < n then of_int attended / of_int n * 100 else 0)"
  by (simp add: attendance_rate_of_def py_truediv_def bind_err_def)

lemma count_distinct_card: "count_distinct vs = int (card (set vs))"
  by (simp add: count_distinct_def length_remdups_card_conv)

lemma count_attended_card:
  "count_attended date db =
     int (card (ar_professor_id ` {r \<in> set (attendance_records db). ar_date r = date}))"
  by (simp add: count_attended_def count_distinct_card)

lemma daily_stats_value:
  "get_daily_attendance_stats clk date_arg db =
     (let date = (if truthy date_arg then get_default date_arg '''' else strftime_ymd (clk_now clk));
          n = count_active_professors db; a = count_attended date db
      in Inr \<lparr>ds_date = date, ds_total_professors = n, ds_attended_today = a,
              ds_attendance_rate = (if 0 < n then of_int a / of_int n * 100 else 0),
              ds_by_department = department_stats date db, ds_absent_today = n - a\<rparr>)"
  by (simp add: get_daily_attendance_stats_def Let_def attendance_rate_of_total bind_err_def)

lemma rate_above_100:
  fixes a n :: int
  assumes "0 < n" and "n < a"
  shows "100 < (of_int a / of_int n * 100 :: rat)"
  using assms by (simp add: less_divide_eq)

lemma example_cutoff: "sqlite_date_minus_7_days (strftime_ymd (clk_now example_clock)) = Some ''2024-01-03''"
  by (simp add: sqlite_date_minus_7_days_def parse_ymd_def number_of_digits_def digit_val_def
      seven_days_before_def days_in_month_def is_leap_year_def pad4_def pad2_def digit_char_def
      strftime_ymd_def example_clock_def)

text \<open>
  C3. The claim: on day D the map \<open>recent_attendance\<close> of \<open>get_dashboard_stats\<close> has a key E
  exactly when a record is dated E and E lies in [D-7, D]; no key outside [D-7, D] appears.
  The query has the lower bound \<open>date >= date(today, '-7 days')\<close> and no upper bound, so a
  record dated after D is counted too. On 2024-01-10, with a check-in dated 2024-01-20 in the
  store, the map has the key 2024-01-20.
\<close>

theorem dashboard_recent_attendance_future_day:
  "\<exists>s. get_dashboard_stats example_clock future_db = Inr s \<and>
       dash_recent_attendance s = [(''2024-01-20'', 1), (''2024-01-05'', 1)]"
  by (simp add: get_dashboard_stats_def Let_def attendance_rate_of_total bind_err_def
      recent_attendance_query_def example_cutoff future_db_def example_db_def example_record_def
      empty_database_def group_count_def order_by_def text_le_def)

text \<open>
  C4. When no professor is active, \<open>get_daily_attendance_stats\<close>, for any date argument, and
  \<open>get_dashboard_stats\<close> both return normally, with \<open>attendance_rate\<close> 0: the division is
  not reached.
\<close>

theorem zero_active_professors_rate:
  assumes "count_active_professors db = 0"
  shows "(\<exists>s. get_daily_attendance_stats clk date_arg db = Inr s \<and> ds_attendance_rate s = 0) \<and>
         (\<exists>s. get_dashboard_stats clk db = Inr s \<and> dash_attendance_rate s = 0)"
  using assms
  by (simp add: get_daily_attendance_stats_def get_dashboard_stats_def Let_def
      attendance_rate_of_zero bind_err_def)

text \<open>The crowded store without its professors: three check-ins, nobody registered.\<close>

theorem zero_active_professors_rate_witness:
  "(\<exists>s. get_daily_attendance_stats example_clock None
          (crowded_db\<lparr>professors := []\<rparr>) = Inr s \<and> ds_attendance_rate s = 0) \<and>
   (\<exists>s. get_dashboard_stats example_clock (crowded_db\<lparr>professors := []\<rparr>) = Inr s \<and>
        dash_attendance_rate s = 0)"
proof -
  have "count_active_professors (crowded_db\<lparr>professors := []\<rparr>) = 0"
    by (simp add: count_active_professors_def)
  from zero_active_professors_rate [OF this] show ?thesis .
qed

text \<open>
  C10. \<open>get_daily_attendance_stats\<close> always returns; \<open>attended_today\<close> is the number of
  distinct \<open>professor_id\<close>s among the records of the day, whoever they belong to, and
  \<open>total_professors\<close> is the number of active professors. \<open>absent_today\<close> is their
  difference, so when more ids attended than professors are active it is negative and the
  rate is above 100. The crowded store shows it happen: one active professor, three ids
  checked in, \<open>absent_today\<close> is -2 and the rate 300.
\<close>

theorem daily_stats_attended_any_id:
  "(\<exists>s. get_daily_attendance_stats clk date_arg db = Inr s \<and>
        ds_date s = (if truthy date_arg then get_default date_arg '''' else strftime_ymd (clk_now clk)) \<and>
        ds_attended_today s =
          int (card (ar_professor_id ` {r \<in> set (attendance_records db). ar_date r = ds_date s})) \<and>
        ds_total_professors s =
          int (length (filter (\<lambda>p. p_is_active p = Some 1) (professors db))) \<and>
        ds_absent_today s = ds_total_professors s - ds_attended_today s \<and>
        (ds_total_professors s < ds_attended_today s \<longrightarrow>
           ds_absent_today s < 0 \<and> (0 < ds_total_professors s \<longrightarrow> 100 < ds_attendance_rate s))) \<and>
   (\<exists>s. get_daily_attendance_stats example_clock (Some ''2024-01-10'') crowded_db = Inr s \<and>
        ds_total_professors s = 1 \<and> ds_attended_today s = 3 \<and>
        ds_absent_today s = - 2 \<and> ds_attendance_rate s = 300)"
proof -
  define date where
    "date = (if truthy date_arg then get_default date_arg '''' else strftime_ymd (clk_now clk))"
  define n where "n = count_active_professors db"
  define a where "a = count_attended date db"
  define s where
    "s = \<lparr>ds_date = date, ds_total_professors = n, ds_attended_today = a,
          ds_attendance_rate = (if 0 < n then of_int a / of_int n * 100 else 0),
          ds_by_department = department_stats date db, ds_absent_today = n - a\<rparr>"
  have run: "get_daily_attendance_stats clk date_arg db = Inr s"
    by (simp add: daily_stats_value s_def a_def n_def date_def Let_def)
  have attended: "ds_attended_today s =
      int (card (ar_professor_id ` {r \<in> set (attendance_records db). ar_date r = ds_date s}))"
    by (simp add: s_def a_def count_attended_card)
  have active: "ds_total_professors s =
      int (length (filter (\<lambda>p. p_is_active p = Some 1) (professors db)))"
    by (simp add: s_def n_def count_active_professors_def)
  have absent: "ds_absent_today s = ds_total_professors s - ds_attended_today s"
    by (simp add: s_def)
  have over: "ds_absent_today s < 0 \<and> (0 < ds_total_professors s \<longrightarrow> 100 < ds_attendance_rate s)"
    if "ds_total_professors s < ds_attended_today s"
    using that rate_above_100 [of n a] by (simp add: s_def)
  have general: "\<exists>s. get_daily_attendance_stats clk date_arg db = Inr s \<and>
        ds_date s = (if truthy date_arg then get_default date_arg '''' else strftime_ymd (clk_now clk)) \<and>
        ds_attended_today s =
          int (card (ar_professor_id ` {r \<in> set (attendance_records db). ar_date r = ds_date s})) \<and>
        ds_total_professors s =
          int (length (filter (\<lambda>p. p_is_active p = Some 1) (professors db))) \<and>
        ds_absent_today s = ds_total_professors s - ds_attended_today s \<and>
        (ds_total_professors s < ds_attended_today s \<longrightarrow>
           ds_absent_today s < 0 \<and> (0 < ds_total_professors s \<longrightarrow> 100 < ds_attendance_rate s))"
    using run attended active absent over by (intro exI [of _ s]) (simp add: s_def date_def)
  have example: "\<exists>s. get_daily_attendance_stats example_clock (Some ''2024-01-10'') crowded_db = Inr s \<and>
        ds_total_professors s = 1 \<and> ds_attended_today s = 3 \<and>
        ds_absent_today s = - 2 \<and> ds_attendance_rate s = 300"
    by (simp add: daily_stats_value Let_def
        count_attended_def count_distinct_def count_active_professors_def truthy_def get_default_def
        crowded_db_def example_professor_def example_record_def empty_database_def)
  from general example show ?thesis by blast
qed

text \<open>
  On the crowded store the premise holds: one active professor, three ids checked in.
\<close>

theorem daily_stats_attended_any_id_witness:
  "\<exists>s. get_daily_attendance_stats example_clock (Some ''2024-01-10'') crowded_db = Inr s \<and>
       ds_total_professors s < ds_attended_today s \<and>
       ds_absent_today s < 0 \<and> 100 < ds_attendance_rate s"
proof -
  from daily_stats_attended_any_id [of example_clock "Some ''2024-01-10''" crowded_db]
  obtain s where run: "get_daily_attendance_stats example_clock (Some ''2024-01-10'') crowded_db = Inr s"
    and over: "ds_total_professors s < ds_attended_today s \<longrightarrow>
           ds_absent_today s < 0 \<and> (0 < ds_total_professors s \<longrightarrow> 100 < ds_attendance_rate s)"
    by blast
  have "get_daily_attendance_stats example_clock (Some ''2024-01-10'') crowded_db =
        Inr \<lparr>ds_date = ''2024-01-10'', ds_total_professors = 1, ds_attended_today = 3,
             ds_attendance_rate = 300,
             ds_by_department = department_stats ''2024-01-10'' crowded_db, ds_absent_today = - 2\<rparr>"
    by (simp add: daily_stats_value Let_def count_attended_def count_distinct_def
        count_active_professors_def truthy_def get_default_def crowded_db_def
        example_professor_def example_record_def empty_database_def)
  with run have counts: "ds_total_professors s = 1" "ds_attended_today s = 3"
    by auto
  with run over show ?thesis
    by (intro exI [of _ s]) simp
qed

subsection \<open>Effects of \<open>log_action\<close> and of sorting\<close>

lemma log_action_effect:
  "map l_action (system_logs (log_action clk action details user_id db)) =
     map l_action (system_logs db) @ [action]"
  "professors (log_action clk action details user_id db) = professors db"
  "attendance_records (log_action clk action details user_id db) = attendance_records db"
  "attendance_sessions (log_action clk action details user_id db) = attendance_sessions db"
  "courses (log_action clk action details user_id db) = courses db"
  "admins (log_action clk action details user_id db) = admins db"
  by (simp_all add: log_action_def Let_def)

lemma fetchone_filter_Some:
  "fetchone (filter P xs) = Some x \<Longrightarrow> x \<in> set xs \<and> P x"
proof -
  assume "fetchone (filter P xs) = Some x"
  then obtain rest where "filter P xs = x # rest"
    by (cases "filter P xs") (simp_all add: fetchone_def)
  then have "x \<in> set (filter P xs)"
    by simp
  then show ?thesis
    by simp
qed

lemma insort_by_not_Nil: "insort_by le x ys \<noteq> []"
  by (cases ys) simp_all

lemma order_by_Nil_iff: "order_by le xs = [] \<longleftrightarrow> xs = []"
  by (cases xs) (simp_all add: order_by_def insort_by_not_Nil)

lemma get_attendance_records_Nil_iff:
  "get_attendance_records fo db = [] \<longleftrightarrow>
     filter (case fo of None \<Rightarrow> (\<lambda>_. True) | Some f \<Rightarrow> filter_cond f) (join_professors db) = []"
  by (simp add: get_attendance_records_def order_by_Nil_iff)

subsection \<open>Administrators\<close>

text \<open>
  C6. \<open>authenticate_admin\<close> returns \<open>True\<close> exactly when an admin row has the given username
  and, as \<open>password_hash\<close>, the digest of the given password. Then it returns such a stored
  row and appends one log row, with action "ADMIN_LOGIN". In every other case it returns
  \<open>(False, None)\<close> and the store, the log included, is unchanged. The digest is any fixed
  function of the password.
\<close>

theorem authenticate_admin_exact:
  "(fst (fst (authenticate_admin digest clk username password db)) \<longleftrightarrow>
      (\<exists>a\<in>set (admins db). a_username a = username \<and> a_password_hash a = digest password)) \<and>
   (fst (fst (authenticate_admin digest clk username password db)) \<longrightarrow>
      (\<exists>a\<in>set (admins db). a_username a = username \<and> a_password_hash a = digest password \<and>
         authenticate_admin digest clk username password db =
           ((True, Some a),
            log_action clk ''ADMIN_LOGIN'' (''Admin '' @ username @ '' logged in'') None db)) \<and>
      map l_action (system_logs (snd (authenticate_admin digest clk username password db))) =
        map l_action (system_logs db) @ [''ADMIN_LOGIN'']) \<and>
   (\<not> fst (fst (authenticate_admin digest clk username password db)) \<longrightarrow>
      authenticate_admin digest clk username password db = ((False, None), db))"
proof (cases "fetchone (filter (\<lambda>a. a_username a = username \<and> a_password_hash a = digest password)
                 (admins db))")
  case None
  then have "\<not> (\<exists>a\<in>set (admins db). a_username a = username \<and> a_password_hash a = digest password)"
    by (simp add: fetchone_filter_None_iff)
  with None show ?thesis
    by (simp add: authenticate_admin_def Let_def)
next
  case (Some a)
  from fetchone_filter_Some [OF Some]
  have "a \<in> set (admins db)" "a_username a = username" "a_password_hash a = digest password"
    by simp_all
  with Some show ?thesis
    by (auto simp: authenticate_admin_def Let_def log_action_effect)
qed

text \<open>
  With the stand-in digest, "secret" opens the account of the example administrator and
  "terces" (the stored hash itself) does not.
\<close>

theorem authenticate_admin_exact_witness:
  "authenticate_admin rev example_clock ''root'' ''secret'' (empty_database\<lparr>admins := [example_admin]\<rparr>) =
     ((True, Some example_admin),
      log_action example_clock ''ADMIN_LOGIN'' ''Admin root logged in'' None
        (empty_database\<lparr>admins := [example_admin]\<rparr>)) \<and>
   authenticate_admin rev example_clock ''root'' ''terces'' (empty_database\<lparr>admins := [example_admin]\<rparr>) =
     ((False, None), empty_database\<lparr>admins := [example_admin]\<rparr>)"
proof -
  define db where "db = empty_database\<lparr>admins := [example_admin]\<rparr>"
  have stored: "admins db = [example_admin]"
    by (simp add: db_def)
  have name: "a_username example_admin = ''root''"
    and hash: "a_password_hash example_admin = ''terces''"
    by (simp_all add: example_admin_def)
  have good: "\<exists>a\<in>set (admins db). a_username a = ''root'' \<and> a_password_hash a = rev ''secret''"
    by (simp add: stored name hash)
  have bad: "\<not> (\<exists>a\<in>set (admins db). a_username a = ''root'' \<and> a_password_hash a = rev ''terces'')"
    by (simp add: stored name hash)
  note accept = authenticate_admin_exact [of rev example_clock "''root''" "''secret''" db]
  note reject = authenticate_admin_exact [of rev example_clock "''root''" "''terces''" db]
  from accept good have "fst (fst (authenticate_admin rev example_clock ''root'' ''secret'' db))"
    by blast
  with accept obtain a where "a \<in> set (admins db)"
    and run: "authenticate_admin rev example_clock ''root'' ''secret'' db =
           ((True, Some a),
            log_action example_clock ''ADMIN_LOGIN'' (''Admin '' @ ''root'' @ '' logged in'') None db)"
    by blast
  then have "a = example_admin"
    by (simp add: stored)
  with run have r1: "authenticate_admin rev example_clock ''root'' ''secret'' db =
     ((True, Some example_admin),
      log_action example_clock ''ADMIN_LOGIN'' ''Admin root logged in'' None db)"
    by simp
  from reject bad have "\<not> fst (fst (authenticate_admin rev example_clock ''root'' ''terces'' db))"
    by blast
  with reject have r2: "authenticate_admin rev example_clock ''root'' ''terces'' db = ((False, None), db)"
    by blast
  from r1 r2 show ?thesis
    unfolding db_def by (rule conjI)
qed

subsection \<open>Export\<close>

text \<open>
  C7. When \<open>get_attendance_records\<close> finds nothing for the filters, \<open>export_to_excel\<close> returns
  the empty string and changes nothing: no file is written and no log row appended.
  Otherwise it returns the chosen path (the given one, or the time-stamped default), the
  workbook with one row per record is stored at that path, no other file changes, and one
  log row with action "EXPORT_EXCEL" is appended.
\<close>

theorem export_to_excel_empty_or_written:
  "(get_attendance_records fo (w_db w) = [] \<longrightarrow> export_to_excel clk fo out w = ('''', w)) \<and>
   (get_attendance_records fo (w_db w) \<noteq> [] \<longrightarrow>
      fst (export_to_excel clk fo out w) =
        (if truthy out then get_default out ''''
         else ''attendance_report_'' @ strftime_stamp (clk_now clk) @ ''.xlsx'') \<and>
      w_files (snd (export_to_excel clk fo out w)) (fst (export_to_excel clk fo out w)) =
        Some \<lparr>wb_sheet_name = ''Attendance Records'',
              wb_rows = get_attendance_records fo (w_db w)\<rparr> \<and>
      (\<forall>q. q \<noteq> fst (export_to_excel clk fo out w) \<longrightarrow>
           w_files (snd (export_to_excel clk fo out w)) q = w_files w q) \<and>
      map l_action (system_logs (w_db (snd (export_to_excel clk fo out w)))) =
        map l_action (system_logs (w_db w)) @ [''EXPORT_EXCEL''])"
  by (simp add: export_to_excel_def Let_def log_action_effect)

text \<open>
  On the example store nobody has the id P9, so that filter exports nothing; without
  filters the three check-ins are written to the default path of 2024-01-10 09:30:00.
\<close>

theorem export_to_excel_empty_or_written_witness:
  "export_to_excel example_clock (Some (example_filters ''P9'')) None example_world =
     ('''', example_world) \<and>
   fst (export_to_excel example_clock None None example_world) =
     ''attendance_report_20240110_093000.xlsx'' \<and>
   w_files (snd (export_to_excel example_clock None None example_world))
     ''attendance_report_20240110_093000.xlsx'' =
     Some \<lparr>wb_sheet_name = ''Attendance Records'',
           wb_rows = get_attendance_records None example_db\<rparr> \<and>
   map l_action (system_logs (w_db (snd (export_to_excel example_clock None None example_world)))) =
     [''EXPORT_EXCEL'']"
proof -
  have db: "w_db example_world = example_db"
    by (simp add: example_world_def)
  have none: "get_attendance_records (Some (example_filters ''P9'')) (w_db example_world) = []"
    unfolding db get_attendance_records_Nil_iff
    by (simp add: join_professors_def filter_cond_def truthy_def example_filters_def example_defs)
  have some: "get_attendance_records None (w_db example_world) \<noteq> []"
    unfolding db get_attendance_records_Nil_iff
    by (simp add: join_professors_def example_defs)
  have path: "(if truthy None then get_default None ''''
         else ''attendance_report_'' @ strftime_stamp (clk_now example_clock) @ ''.xlsx'') =
        ''attendance_report_20240110_093000.xlsx''"
    by (simp add: truthy_def strftime_stamp_def pad4_def pad2_def digit_char_def example_clock_def)
  have logs: "system_logs example_db = []"
    by (simp add: example_defs)
  note empty = export_to_excel_empty_or_written
                 [of "Some (example_filters ''P9'')" example_world example_clock None]
  note written = export_to_excel_empty_or_written [of None example_world example_clock None]
  from empty none
  have r1: "export_to_excel example_clock (Some (example_filters ''P9'')) None example_world =
     ('''', example_world)"
    by blast
  from written some
  have r2: "fst (export_to_excel example_clock None None example_world) =
        (if truthy None then get_default None ''''
         else ''attendance_report_'' @ strftime_stamp (clk_now example_clock) @ ''.xlsx'')"
    and r3: "w_files (snd (export_to_excel example_clock None None example_world))
               (fst (export_to_excel example_clock None None example_world)) =
        Some \<lparr>wb_sheet_name = ''Attendance Records'',
              wb_rows = get_attendance_records None (w_db example_world)\<rparr>"
    and r4: "map l_action (system_logs (w_db (snd (export_to_excel example_clock None None example_world)))) =
        map l_action (system_logs (w_db example_world)) @ [''EXPORT_EXCEL'']"
    by blast+
  from r2 have p: "fst (export_to_excel example_clock None None example_world) =
      ''attendance_report_20240110_093000.xlsx''"
    unfolding path .
  from r1 p r3 r4 show ?thesis
    by (simp add: db logs)
qed

subsection \<open>Courses\<close>

text \<open>
  C8. When a stored course has the course code of the data, \<open>add_course\<close> fails (with the
  message of the \<open>UNIQUE\<close> constraint, when the data has a name) and the store is
  unchanged. Otherwise, the data having a name, the course is appended and success
  returned; a missing \<open>units\<close> is stored as 3, a missing \<open>semester\<close> as "1st" and a missing
  \<open>academic_year\<close> as "2024-2025", whatever the caller and the store.
\<close>

theorem add_course_defaults_and_duplicates:
  assumes "cd_course_code d = Some code"
  shows "((\<exists>c\<in>set (courses db). c_course_code c = code) \<longrightarrow>
            \<not> fst (fst (add_course d db)) \<and> snd (add_course d db) = db \<and>
            (cd_course_name d \<noteq> None \<longrightarrow>
               fst (add_course d db) =
                 (False, ''Error adding course: UNIQUE constraint failed: courses.course_code''))) \<and>
         (\<not> (\<exists>c\<in>set (courses db). c_course_code c = code) \<longrightarrow>
            cd_course_name d = Some name \<longrightarrow>
            add_course d db =
              ((True, ''Course added successfully''),
               db\<lparr>courses := courses db @
                     [\<lparr>c_id = next_rowid (seq_courses db) (map c_id (courses db)),
                       c_course_code = code, c_course_name = name,
                       c_department = Some (case cd_department d of None \<Rightarrow> '''' | Some x \<Rightarrow> x),
                       c_units = Some (case cd_units d of None \<Rightarrow> 3 | Some u \<Rightarrow> u),
                       c_semester = Some (case cd_semester d of None \<Rightarrow> ''1st'' | Some x \<Rightarrow> x),
                       c_academic_year =
                         Some (case cd_academic_year d of None \<Rightarrow> ''2024-2025'' | Some x \<Rightarrow> x)\<rparr>],
                   seq_courses := next_rowid (seq_courses db) (map c_id (courses db))\<rparr>))"
proof -
  have dup: "\<not> fst (fst (add_course d db)) \<and> snd (add_course d db) = db \<and>
            (cd_course_name d \<noteq> None \<longrightarrow>
               fst (add_course d db) =
                 (False, ''Error adding course: UNIQUE constraint failed: courses.course_code''))"
    if "\<exists>c\<in>set (courses db). c_course_code c = code"
    using that assms
    by (cases "cd_course_name d")
       (auto simp: add_course_def add_course_try_def bind_err_def subscript_def
          insert_course_def filter_empty_conv)
  have fresh: "add_course d db =
              ((True, ''Course added successfully''),
               db\<lparr>courses := courses db @
                     [\<lparr>c_id = next_rowid (seq_courses db) (map c_id (courses db)),
                       c_course_code = code, c_course_name = name,
                       c_department = Some (case cd_department d of None \<Rightarrow> '''' | Some x \<Rightarrow> x),
                       c_units = Some (case cd_units d of None \<Rightarrow> 3 | Some u \<Rightarrow> u),
                       c_semester = Some (case cd_semester d of None \<Rightarrow> ''1st'' | Some x \<Rightarrow> x),
                       c_academic_year =
                         Some (case cd_academic_year d of None \<Rightarrow> ''2024-2025'' | Some x \<Rightarrow> x)\<rparr>],
                   seq_courses := next_rowid (seq_courses db) (map c_id (courses db))\<rparr>)"
    if "\<not> (\<exists>c\<in>set (courses db). c_course_code c = code)" and "cd_course_name d = Some name"
    using that assms
    by (simp add: add_course_def add_course_try_def bind_err_def subscript_def
          insert_course_def filter_empty_conv Let_def get_default_def)
  from dup fresh show ?thesis by blast
qed

text \<open>
  A course given with code and name only is stored with the three defaults; adding it a
  second time fails and leaves the store as the first call made it.
\<close>

theorem add_course_defaults_and_duplicates_witness:
  "map (\<lambda>c. (c_course_code c, c_units c, c_semester c, c_academic_year c))
     (courses (snd (add_course (example_course_data ''CS101'') empty_database))) =
     [(''CS101'', Some 3, Some ''1st'', Some ''2024-2025'')] \<and>
   fst (add_course (example_course_data ''CS101'') empty_database) =
     (True, ''Course added successfully'') \<and>
   add_course (example_course_data ''CS101'')
     (snd (add_course (example_course_data ''CS101'') empty_database)) =
     ((False, ''Error adding course: UNIQUE constraint failed: courses.course_code''),
      snd (add_course (example_course_data ''CS101'') empty_database))"
proof -
  have code: "cd_course_code (example_course_data ''CS101'') = Some ''CS101''"
    and name: "cd_course_name (example_course_data ''CS101'') = Some ''Logic''"
    and dflt: "cd_units (example_course_data ''CS101'') = None"
      "cd_semester (example_course_data ''CS101'') = None"
      "cd_academic_year (example_course_data ''CS101'') = None"
      "cd_department (example_course_data ''CS101'') = None"
    by (simp_all add: example_course_data_def)
  have none: "\<not> (\<exists>c\<in>set (courses empty_database). c_course_code c = ''CS101'')"
    by (simp add: empty_database_def)
  define db1 where "db1 = snd (add_course (example_course_data ''CS101'') empty_database)"
  from add_course_defaults_and_duplicates [OF code, of empty_database "''Logic''"] none name
  have run: "add_course (example_course_data ''CS101'') empty_database =
              ((True, ''Course added successfully''),
               empty_database\<lparr>courses := courses empty_database @
                     [\<lparr>c_id = next_rowid (seq_courses empty_database) (map c_id (courses empty_database)),
                       c_course_code = ''CS101'', c_course_name = ''Logic'',
                       c_department = Some '''', c_units = Some 3, c_semester = Some ''1st'',
                       c_academic_year = Some ''2024-2025''\<rparr>],
                   seq_courses := next_rowid (seq_courses empty_database)
                                    (map c_id (courses empty_database))\<rparr>)"
    by (simp add: dflt)
  have stored: "map (\<lambda>c. (c_course_code c, c_units c, c_semester c, c_academic_year c)) (courses db1) =
      [(''CS101'', Some 3, Some ''1st'', Some ''2024-2025'')]"
    unfolding db1_def run by (simp add: empty_database_def)
  then have taken: "\<exists>c\<in>set (courses db1). c_course_code c = ''CS101''"
    by (cases "courses db1") auto
  from add_course_defaults_and_duplicates [OF code, of db1 "''Logic''"] taken name
  have again: "fst (add_course (example_course_data ''CS101'') db1) =
      (False, ''Error adding course: UNIQUE constraint failed: courses.course_code'')"
    and same: "snd (add_course (example_course_data ''CS101'') db1) = db1"
    by auto
  have second_call: "add_course (example_course_data ''CS101'') db1 =
     ((False, ''Error adding course: UNIQUE constraint failed: courses.course_code''), db1)"
    using again same by (simp add: prod_eq_iff)
  have ok: "fst (add_course (example_course_data ''CS101'') empty_database) =
     (True, ''Course added successfully'')"
    unfolding run by simp
  from stored ok second_call show ?thesis
    unfolding db1_def by simp
qed

subsection \<open>What the recent-attendance query selects\<close>

text \<open>Sorting keeps the rows, and the keys of a \<open>GROUP BY\<close> are distinct.\<close>

lemma set_insort_by: "set (insort_by le x ys) = insert x (set ys)"
  by (induction ys) auto

lemma distinct_map_insort_by:
  "distinct (map f (insort_by le x ys)) \<longleftrightarrow> f x \<notin> f ` set ys \<and> distinct (map f ys)"
  by (induction ys) (auto simp: set_insort_by)

lemma set_order_by: "set (order_by le xs) = set xs"
  by (induction xs) (simp_all add: order_by_def set_insort_by)

lemma distinct_map_order_by: "distinct (map f (order_by le xs)) \<longleftrightarrow> distinct (map f xs)"
proof (induction xs)
  case Nil
  show ?case by (simp add: order_by_def)
next
  case (Cons x xs)
  have "order_by le (x # xs) = insort_by le x (order_by le xs)"
    by (simp add: order_by_def)
  with Cons show ?case
    by (simp add: distinct_map_insort_by set_order_by)
qed

lemma map_of_order_by:
  assumes "distinct (map fst xs)"
  shows "map_of (order_by le xs) = map_of xs"
proof -
  have "distinct (map fst (order_by le xs))"
    using assms by (simp add: distinct_map_order_by)
  then show ?thesis
    using assms by (simp add: map_of_inject_set set_order_by)
qed

lemma map_of_group_count:
  "map_of (group_count ks) k =
     (if k \<in> set ks then Some (int (length (filter (\<lambda>x. x = k) ks))) else None)"
  by (simp add: group_count_def map_of_map_restrict restrict_map_def)

lemma distinct_group_count: "distinct (map fst (group_count ks))"
  by (simp add: group_count_def comp_def)

text \<open>
  The map \<open>recent_attendance\<close> built from the query has a day as key exactly when a record
  carries that date and the date is not before the cutoff, seven days before today; the value
  is the number of records of that day. There is no bound on the other side.
\<close>

lemma recent_attendance_query_lookup:
  assumes "sqlite_date_minus_7_days today = Some cutoff"
  shows "map_of (recent_attendance_query today db) day =
           (if text_le cutoff day \<and> day \<in> ar_date ` set (attendance_records db)
            then Some (int (length (filter (\<lambda>r. ar_date r = day) (attendance_records db))))
            else None)"
proof -
  let ?sel = "filter (\<lambda>r. text_le cutoff (ar_date r)) (attendance_records db)"
  have "map_of (recent_attendance_query today db) day = map_of (group_count (map ar_date ?sel)) day"
    using assms by (simp add: recent_attendance_query_def map_of_order_by distinct_group_count)
  also have "\<dots> = (if day \<in> ar_date ` set ?sel
                    then Some (int (length (filter (\<lambda>x. x = day) (map ar_date ?sel)))) else None)"
    by (simp add: map_of_group_count)
  also have "day \<in> ar_date ` set ?sel \<longleftrightarrow>
             text_le cutoff day \<and> day \<in> ar_date ` set (attendance_records db)"
    by auto
  also have "filter (\<lambda>x. x = day) (map ar_date ?sel) =
             map ar_date (filter (\<lambda>r. ar_date r = day \<and> text_le cutoff day) (attendance_records db))"
    by (simp add: filter_map comp_def) (metis (mono_tags, lifting) filter_cong)
  finally show ?thesis
    by (simp cong: if_cong)
qed

subsection \<open>The primary key of \<open>professors\<close>\<close>

text \<open>
  \<open>add_professor\<close>, the only method that inserts into \<open>professors\<close>, keeps the ids
  distinct.
\<close>

lemma add_professor_keeps_primary_key:
  assumes "distinct (map p_id (professors db))"
  shows "distinct (map p_id (professors (snd (add_professor clk d db))))"
  using assms
  by (auto simp: add_professor_def add_professor_try_def bind_err_def subscript_def Let_def
      fetchone_filter_None_iff insert_professor_def filter_empty_conv log_action_effect
      split: option.splits sum.splits if_splits)

end
